theory Spec2Isabelle
  imports Main "HOL-Library.Word"
begin

section \<open>WordGameFHE: a shallow embedding of the contract\<close>

text \<open>
  The contract \<^verbatim>\<open>src/contracts/WordGameFHE.sol\<close> is embedded function by function.
  Storage is a record of the contract's state variables; a Solidity \<^verbatim>\<open>mapping\<close> is a
  total function whose unwritten slots hold the zero value of their type. A call either
  reverts (\<open>Inl\<close>) or returns the new storage with the effects it produced (\<open>Inr\<close>);
  \<open>transact\<close> applies a call to the chain and discards everything a reverted call did.

  \<^verbatim>\<open>uint256\<close> is \<open>nat\<close>, and the checked arithmetic of Solidity 0.8 (\<^verbatim>\<open>x++\<close> panics with
  code 0x11 at \<open>2^256 - 1\<close>) is written out in \<open>checked_inc\<close>.
\<close>

subsection \<open>Values\<close>

type_synonym uint256 = nat
type_synonym address = "160 word"
type_synonym bytes = "8 word list"

definition MAX_UINT256 :: uint256 where
  "MAX_UINT256 = 2 ^ 256 - 1"

text \<open>\<^verbatim>\<open>1 days\<close>, in seconds.\<close>

definition one_days :: uint256 where
  "one_days = 86400"

datatype error =
    Error string      \<comment> \<open>a failed \<^verbatim>\<open>require(cond, "message")\<close>\<close>
  | Panic nat         \<comment> \<open>0x11: arithmetic overflow, 0x32: index out of bounds\<close>
  | InvalidSignatures \<comment> \<open>\<^verbatim>\<open>FHE.checkSignatures\<close> reverted\<close>
  | LibraryRevert     \<comment> \<open>\<^verbatim>\<open>FHE.eq\<close>, \<^verbatim>\<open>FHE.and\<close> or \<^verbatim>\<open>FHE.requestDecryption\<close> reverted\<close>
  | AbiDecodeError    \<comment> \<open>\<^verbatim>\<open>abi.decode\<close> reverted\<close>

definition checked_inc :: "uint256 \<Rightarrow> error + uint256" where
  "checked_inc x = (if x \<ge> MAX_UINT256 then Inl (Panic 17) else Inr (x + 1))"

subsection \<open>The FHE library, as the contract sees it\<close>

text \<open>
  The library \<^verbatim>\<open>@fhevm/solidity/lib/FHE.sol\<close> is not part of the repository. An
  \<^verbatim>\<open>euint32\<close> is an opaque handle. An \<^verbatim>\<open>ebool\<close> is the term of library operations that
  built it: \<^verbatim>\<open>FHE.asEbool\<close>, \<^verbatim>\<open>FHE.and\<close> and \<^verbatim>\<open>FHE.eq\<close> are the constructors, and
  \<^verbatim>\<open>FHE.toBytes32\<close> is the cast of an \<^verbatim>\<open>ebool\<close> to the \<^verbatim>\<open>bytes32\<close> that is sent for
  decryption.
\<close>

datatype euint32 = Handle nat

datatype ebool =
    FHE_asEbool bool
  | FHE_and ebool ebool
  | FHE_eq euint32 euint32

datatype bytes32 = FHE_toBytes32 ebool


text \<open>\<^verbatim>\<open>euint32[5]\<close>: a fixed-size array; an index of 5 or more panics with 0x32.\<close>

datatype letters5 = Letters5 euint32 euint32 euint32 euint32 euint32

fun index5 :: "letters5 \<Rightarrow> nat \<Rightarrow> error + euint32" where
  "index5 (Letters5 l0 l1 l2 l3 l4) i =
     (if i = 0 then Inr l0
      else if i = 1 then Inr l1
      else if i = 2 then Inr l2
      else if i = 3 then Inr l3
      else if i = 4 then Inr l4
      else Inl (Panic 50))"

definition zero_letters :: letters5 where
  "zero_letters = Letters5 (Handle 0) (Handle 0) (Handle 0) (Handle 0) (Handle 0)"

subsection \<open>Structs and storage\<close>

record EncryptedGuess =
  letters :: letters5
  timestamp :: uint256
  player :: address

record EncryptedAnswer =
  answer_letters :: letters5
  day :: uint256

record PlayerStats =
  wins :: uint256
  attempts :: uint256
  lastPlayedDay :: uint256

record storage =
  currentAnswer :: EncryptedAnswer
  guesses :: "uint256 \<Rightarrow> EncryptedGuess"
  guessCount :: uint256
  playerStats :: "address \<Rightarrow> PlayerStats"
  dailyWinners :: "uint256 \<Rightarrow> address list"
  requestToGuessId :: "uint256 \<Rightarrow> uint256"

text \<open>The zero values of the structs, and the storage of a freshly deployed contract.\<close>

definition zero_guess :: EncryptedGuess where
  "zero_guess = \<lparr>letters = zero_letters, timestamp = 0, player = 0\<rparr>"

definition zero_stats :: PlayerStats where
  "zero_stats = \<lparr>wins = 0, attempts = 0, lastPlayedDay = 0\<rparr>"

definition deployed :: storage where
  "deployed =
     \<lparr>currentAnswer = \<lparr>answer_letters = zero_letters, day = 0\<rparr>,
      guesses = (\<lambda>_. zero_guess),
      guessCount = 0,
      playerStats = (\<lambda>_. zero_stats),
      dailyWinners = (\<lambda>_. []),
      requestToGuessId = (\<lambda>_. 0)\<rparr>"

subsection \<open>Events, outgoing calls and the environment of a call\<close>

datatype event =
    GuessSubmitted uint256 address
  | GuessEvaluated uint256 address bool
  | NewDailyAnswer uint256

datatype selector = handleEvaluationResult_selector

datatype effect =
    Emit event
  | RequestDecryption "bytes32 list" selector uint256
      \<comment> \<open>\<^verbatim>\<open>FHE.requestDecryption(ciphertexts, selector)\<close> and the request id it returned\<close>

text \<open>
  What a call reads from outside the contract: the caller, the block's time, the request
  id that \<^verbatim>\<open>FHE.requestDecryption\<close> returns in this call, and whether
  \<^verbatim>\<open>FHE.checkSignatures\<close> accepts a request id, cleartexts and proof.

  The library's operations are calls that can revert. \<^verbatim>\<open>FHE.eq\<close> and \<^verbatim>\<open>FHE.and\<close>
  revert when the library's access-control list does not allow the contract to use an
  operand, and \<^verbatim>\<open>FHE.requestDecryption\<close> when it does not allow the contract to have the
  ciphertexts decrypted. The contract itself never asks for a permission (it calls none of
  \<^verbatim>\<open>FHE.allowThis\<close>, \<^verbatim>\<open>FHE.allow\<close>, \<^verbatim>\<open>FHE.fromExternal\<close>), so whether these calls
  return is decided outside it: \<open>eq_returns\<close>, \<open>and_returns\<close> and
  \<open>requestDecryption_returns\<close> say, for the operands of a call, whether it returns.
\<close>

record env =
  msg_sender :: address
  block_timestamp :: uint256
  requestDecryption_id :: uint256
  checkSignatures :: "uint256 \<Rightarrow> bytes \<Rightarrow> bytes \<Rightarrow> bool"
  eq_returns :: "euint32 \<Rightarrow> euint32 \<Rightarrow> bool"
  and_returns :: "ebool \<Rightarrow> ebool \<Rightarrow> bool"
  requestDecryption_returns :: "bytes32 list \<Rightarrow> bool"

text \<open>
  \<^verbatim>\<open>abi.decode(cleartexts, (bool))\<close>: the first 32 bytes are read as a big-endian word,
  which must be 0 or 1; shorter data or another value reverts.
\<close>

definition abi_decode_bool :: "bytes \<Rightarrow> error + bool" where
  "abi_decode_bool cleartexts =
     (if length cleartexts < 32 then Inl AbiDecodeError
      else if take 31 cleartexts \<noteq> replicate 31 0 then Inl AbiDecodeError
      else if cleartexts ! 31 = 0 then Inr False
      else if cleartexts ! 31 = 1 then Inr True
      else Inl AbiDecodeError)"

subsection \<open>The contract's functions\<close>

text \<open>\<^verbatim>\<open>setDailyAnswer\<close> (lines 50-56). It has no modifier and no \<^verbatim>\<open>require\<close>.\<close>

definition setDailyAnswer :: "env \<Rightarrow> letters5 \<Rightarrow> storage \<Rightarrow> error + (storage \<times> effect list)" where
  "setDailyAnswer e encryptedLetters s =
     (let s1 = s\<lparr>currentAnswer :=
                  \<lparr>answer_letters = encryptedLetters, day = block_timestamp e div one_days\<rparr>\<rparr>
      in Inr (s1, [Emit (NewDailyAnswer (day (currentAnswer s1)))]))"

text \<open>
  \<^verbatim>\<open>submitGuess\<close> (lines 59-75). The modifier \<^verbatim>\<open>answerExists\<close> runs first, then the two
  \<^verbatim>\<open>require\<close>s, then the writes in the order of the source.
\<close>

definition submitGuess :: "env \<Rightarrow> letters5 \<Rightarrow> storage \<Rightarrow> error + (storage \<times> effect list)" where
  "submitGuess e encryptedLetters s =
     (if day (currentAnswer s) = 0 then Inl (Error ''Answer not set'')
      else
        let currentDay = block_timestamp e div one_days in
        if currentDay \<noteq> day (currentAnswer s) then Inl (Error ''Not current day'')
        else if \<not> lastPlayedDay (playerStats s (msg_sender e)) < currentDay
          then Inl (Error ''Already played today'')
        else
          (case checked_inc (guessCount s) of
            Inl err \<Rightarrow> Inl err
          | Inr n \<Rightarrow>
              let s1 = s\<lparr>guessCount := n\<rparr>;
                  s2 = s1\<lparr>guesses := (guesses s1)
                         (guessCount s1 :=
                            \<lparr>letters = encryptedLetters,
                             timestamp = block_timestamp e,
                             player = msg_sender e\<rparr>)\<rparr>;
                  s3 = s2\<lparr>playerStats := (playerStats s2)
                         (msg_sender e :=
                            (playerStats s2 (msg_sender e))\<lparr>lastPlayedDay := currentDay\<rparr>)\<rparr>
              in
                (case checked_inc (attempts (playerStats s3 (msg_sender e))) of
                  Inl err \<Rightarrow> Inl err
                | Inr a \<Rightarrow>
                    let s4 = s3\<lparr>playerStats := (playerStats s3)
                               (msg_sender e :=
                                  (playerStats s3 (msg_sender e))\<lparr>attempts := a\<rparr>)\<rparr>
                    in Inr (s4, [Emit (GuessSubmitted (guessCount s4) (msg_sender e))]))))"

text \<open>
  The loop of \<^verbatim>\<open>evaluateGuess\<close> (lines 84-86), from index \<open>i\<close> with the flag computed so
  far. In each turn \<^verbatim>\<open>FHE.eq\<close> is called first and \<^verbatim>\<open>FHE.and\<close> on its result; a revert
  of either ends the call.
\<close>

function evaluate_loop ::
  "env \<Rightarrow> letters5 \<Rightarrow> letters5 \<Rightarrow> nat \<Rightarrow> ebool \<Rightarrow> error + ebool" where
  "evaluate_loop e guess_letters current_letters i isCorrect =
     (if i < 5 then
        (case index5 guess_letters i of
           Inl err \<Rightarrow> Inl err
         | Inr g \<Rightarrow>
             (case index5 current_letters i of
                Inl err \<Rightarrow> Inl err
              | Inr a \<Rightarrow>
                  if \<not> eq_returns e g a then Inl LibraryRevert
                  else if \<not> and_returns e isCorrect (FHE_eq g a) then Inl LibraryRevert
                  else
                    evaluate_loop e guess_letters current_letters (i + 1)
                      (FHE_and isCorrect (FHE_eq g a))))
      else Inr isCorrect)"
  by pat_completeness auto
termination
  by (relation "measure (\<lambda>(e, g, a, i, c). 5 - i)") auto

declare evaluate_loop.simps [simp del]

text \<open>
  \<^verbatim>\<open>evaluateGuess\<close> (lines 78-93). The ownership \<^verbatim>\<open>require\<close> comes before the existence
  \<^verbatim>\<open>require\<close>, as in the source. \<^verbatim>\<open>FHE.asEbool(true)\<close> encrypts a constant and
  \<^verbatim>\<open>FHE.toBytes32\<close> is a cast; \<^verbatim>\<open>FHE.requestDecryption\<close> can revert, and the request
  id is filed only after it has returned.
\<close>

definition evaluateGuess :: "env \<Rightarrow> uint256 \<Rightarrow> storage \<Rightarrow> error + (storage \<times> effect list)" where
  "evaluateGuess e guessId s =
     (if day (currentAnswer s) = 0 then Inl (Error ''Answer not set'')
      else
        let guess = guesses s guessId in
        if player guess \<noteq> msg_sender e then Inl (Error ''Not your guess'')
        else if \<not> timestamp guess \<noteq> 0 then Inl (Error ''Invalid guess'')
        else
          (case evaluate_loop e (letters guess) (answer_letters (currentAnswer s)) 0
                  (FHE_asEbool True) of
             Inl err \<Rightarrow> Inl err
           | Inr isCorrect \<Rightarrow>
               let ciphertexts = [FHE_toBytes32 isCorrect] in
               if \<not> requestDecryption_returns e ciphertexts then Inl LibraryRevert
               else
                 let reqId = requestDecryption_id e;
                     s1 = s\<lparr>requestToGuessId := (requestToGuessId s)(reqId := guessId)\<rparr>
                 in Inr (s1,
                      [RequestDecryption ciphertexts handleEvaluationResult_selector reqId])))"

text \<open>\<^verbatim>\<open>handleEvaluationResult\<close> (lines 96-114).\<close>

definition handleEvaluationResult ::
  "env \<Rightarrow> uint256 \<Rightarrow> bytes \<Rightarrow> bytes \<Rightarrow> storage \<Rightarrow> error + (storage \<times> effect list)" where
  "handleEvaluationResult e requestId cleartexts proof s =
     (let guessId = requestToGuessId s requestId;
          guess = guesses s guessId
      in
        if \<not> checkSignatures e requestId cleartexts proof then Inl InvalidSignatures
        else
          (case abi_decode_bool cleartexts of
            Inl err \<Rightarrow> Inl err
          | Inr isCorrect \<Rightarrow>
              if isCorrect then
                (case checked_inc (wins (playerStats s (player guess))) of
                   Inl err \<Rightarrow> Inl err
                 | Inr w \<Rightarrow>
                     let s1 = s\<lparr>playerStats := (playerStats s)
                                (player guess := (playerStats s (player guess))\<lparr>wins := w\<rparr>)\<rparr>;
                         s2 = s1\<lparr>dailyWinners := (dailyWinners s1)
                                (day (currentAnswer s1) :=
                                   dailyWinners s1 (day (currentAnswer s1)) @ [player guess])\<rparr>
                     in Inr (s2, [Emit (GuessEvaluated guessId (player guess) isCorrect)]))
              else Inr (s, [Emit (GuessEvaluated guessId (player guess) isCorrect)])))"

text \<open>The view functions (lines 117-129).\<close>

definition getPlayerStats :: "address \<Rightarrow> storage \<Rightarrow> uint256 \<times> uint256" where
  "getPlayerStats p s = (wins (playerStats s p), attempts (playerStats s p))"

definition getDailyWinners :: "uint256 \<Rightarrow> storage \<Rightarrow> address list" where
  "getDailyWinners d s = dailyWinners s d"

definition getCurrentDay :: "storage \<Rightarrow> uint256" where
  "getCurrentDay s = day (currentAnswer s)"

subsection \<open>Transactions\<close>

datatype call =
    SetDailyAnswer letters5
  | SubmitGuess letters5
  | EvaluateGuess uint256
  | HandleEvaluationResult uint256 bytes bytes

fun dispatch :: "env \<Rightarrow> call \<Rightarrow> storage \<Rightarrow> error + (storage \<times> effect list)" where
  "dispatch e (SetDailyAnswer l) s = setDailyAnswer e l s"
| "dispatch e (SubmitGuess l) s = submitGuess e l s"
| "dispatch e (EvaluateGuess g) s = evaluateGuess e g s"
| "dispatch e (HandleEvaluationResult r c p) s = handleEvaluationResult e r c p s"

text \<open>
  The chain holds the contract's storage and everything it has emitted or requested so
  far. A call that reverts leaves both as they were.
\<close>

type_synonym chain = "storage \<times> effect list"

fun transact :: "chain \<Rightarrow> env \<times> call \<Rightarrow> chain" where
  "transact (s, out) (e, c) =
     (case dispatch e c s of
        Inl err \<Rightarrow> (s, out)
      | Inr (s', new) \<Rightarrow> (s', out @ new))"

definition run :: "chain \<Rightarrow> (env \<times> call) list \<Rightarrow> chain" where
  "run = foldl transact"

subsection \<open>The comparison as the specification words it\<close>

text \<open>
  The letters of a word as a list, and the flag as the specification describes it: the
  conjunction, over the positions 0 to 4, of the encrypted equality of the two letters at
  that position.
\<close>

fun list_of :: "letters5 \<Rightarrow> euint32 list" where
  "list_of (Letters5 l0 l1 l2 l3 l4) = [l0, l1, l2, l3, l4]"

definition spec_flag :: "letters5 \<Rightarrow> letters5 \<Rightarrow> ebool" where
  "spec_flag g a =
     foldl FHE_and (FHE_asEbool True) (map (\<lambda>i. FHE_eq (list_of g ! i) (list_of a ! i)) [0 ..< 5])"

text \<open>
  The conjunction of the first \<open>k\<close> equalities, and what it takes for every library call
  of an evaluation to return: at each position the equality of the two letters and its
  conjunction with the flag so far, and at the end the request for decryption of the flag.
\<close>

definition flag_upto :: "letters5 \<Rightarrow> letters5 \<Rightarrow> nat \<Rightarrow> ebool" where
  "flag_upto g a k =
     foldl FHE_and (FHE_asEbool True) (map (\<lambda>i. FHE_eq (list_of g ! i) (list_of a ! i)) [0 ..< k])"

definition loop_returns :: "env \<Rightarrow> letters5 \<Rightarrow> letters5 \<Rightarrow> bool" where
  "loop_returns e g a =
     list_all
       (\<lambda>i. eq_returns e (list_of g ! i) (list_of a ! i)
            \<and> and_returns e (flag_upto g a i) (FHE_eq (list_of g ! i) (list_of a ! i)))
       [0 ..< 5]"

definition library_returns :: "env \<Rightarrow> letters5 \<Rightarrow> letters5 \<Rightarrow> bool" where
  "library_returns e g a =
     (loop_returns e g a \<and> requestDecryption_returns e [FHE_toBytes32 (spec_flag g a)])"

subsection \<open>A small game\<close>

text \<open>
  Concrete participants, words and calls, used to run the contract: an answer is published
  at the first second of day 7, Alice submits the right word ten seconds later and asks
  for its evaluation, which the library files under request id 5.
\<close>

definition alice :: address where "alice = 1"
definition bob :: address where "bob = 2"
definition admin :: address where "admin = 3"

definition word_a :: letters5 where
  "word_a = Letters5 (Handle 1) (Handle 2) (Handle 3) (Handle 4) (Handle 5)"

definition word_b :: letters5 where
  "word_b = Letters5 (Handle 1) (Handle 2) (Handle 3) (Handle 4) (Handle 6)"


definition call_env :: "address \<Rightarrow> uint256 \<Rightarrow> uint256 \<Rightarrow> env" where
  "call_env who t rid =
     \<lparr>msg_sender = who, block_timestamp = t, requestDecryption_id = rid,
      checkSignatures = (\<lambda>r c p. True),
      eq_returns = (\<lambda>x y. True), and_returns = (\<lambda>x y. True),
      requestDecryption_returns = (\<lambda>cts. True)\<rparr>"

definition forged_env :: "address \<Rightarrow> uint256 \<Rightarrow> env" where
  "forged_env who t =
     \<lparr>msg_sender = who, block_timestamp = t, requestDecryption_id = 0,
      checkSignatures = (\<lambda>r c p. False),
      eq_returns = (\<lambda>x y. True), and_returns = (\<lambda>x y. True),
      requestDecryption_returns = (\<lambda>cts. True)\<rparr>"

text \<open>A call for which the contract has been granted none of the handles.\<close>

definition ungranted_env :: "address \<Rightarrow> uint256 \<Rightarrow> uint256 \<Rightarrow> env" where
  "ungranted_env who t rid =
     \<lparr>msg_sender = who, block_timestamp = t, requestDecryption_id = rid,
      checkSignatures = (\<lambda>r c p. True),
      eq_returns = (\<lambda>x y. False), and_returns = (\<lambda>x y. True),
      requestDecryption_returns = (\<lambda>cts. True)\<rparr>"

definition payload_true :: bytes where
  "payload_true = replicate 31 0 @ [1]"

definition payload_false :: bytes where
  "payload_false = replicate 32 0"

definition answered :: chain where
  "answered = run (deployed, []) [(call_env admin 604800 0, SetDailyAnswer word_a)]"

definition submitted :: chain where
  "submitted = run answered [(call_env alice 604810 0, SubmitGuess word_a)]"

definition requested :: chain where
  "requested = run submitted [(call_env alice 604820 5, EvaluateGuess 1)]"

subsection \<open>Resolving again, evaluating again\<close>

text \<open>The request of the small game, resolved as true once and then once more.\<close>

definition resolved_once :: chain where
  "resolved_once = run requested [(call_env bob 604830 0, HandleEvaluationResult 5 payload_true [])]"

definition resolved_twice :: chain where
  "resolved_twice =
     run resolved_once [(call_env bob 604840 0, HandleEvaluationResult 5 payload_true [])]"







subsection \<open>The ledger along a sequence of calls\<close>

text \<open>
  The guess-submitted notifications of a log, in order, and the submissions of a trace
  that returned, in order, each with the struct that line 65 stores for it.
\<close>

fun submissions :: "effect list \<Rightarrow> (uint256 \<times> address) list" where
  "submissions [] = []"
| "submissions (Emit (GuessSubmitted n p) # xs) = (n, p) # submissions xs"
| "submissions (x # xs) = submissions xs"

fun accepted :: "storage \<Rightarrow> env \<times> call \<Rightarrow> EncryptedGuess list" where
  "accepted s (e, SubmitGuess l) =
     (case submitGuess e l s of
        Inl err \<Rightarrow> []
      | Inr r \<Rightarrow> [\<lparr>letters = l, timestamp = block_timestamp e, player = msg_sender e\<rparr>])"
| "accepted s (e, c) = []"

fun submits :: "chain \<Rightarrow> (env \<times> call) list \<Rightarrow> EncryptedGuess list" where
  "submits c [] = []"
| "submits c (x # xs) = accepted (fst c) x @ submits (transact c x) xs"

text \<open>
  Four calls: the answer is published, Alice submits, Alice submits again the same day and
  is refused, Bob submits.
\<close>

definition four_calls :: "(env \<times> call) list" where
  "four_calls =
     [(call_env admin 604800 0, SetDailyAnswer word_a),
      (call_env alice 604810 0, SubmitGuess word_b),
      (call_env alice 604820 0, SubmitGuess word_a),
      (call_env bob 604830 0, SubmitGuess word_a)]"

subsection \<open>Days and participation\<close>

text \<open>
  Whether a participant has a guess in the ledger that was submitted during a given day,
  and the time of a call.
\<close>

definition played_in :: "storage \<Rightarrow> address \<Rightarrow> uint256 \<Rightarrow> bool" where
  "played_in s p d =
     (\<exists>n \<in> set [1 ..< Suc (guessCount s)].
        player (guesses s n) = p \<and> timestamp (guesses s n) div one_days = d)"

definition call_time :: "env \<times> call \<Rightarrow> uint256" where
  "call_time x = block_timestamp (fst x)"

text \<open>
  What holds of the storage when the latest block has time \<open>t\<close>: nobody's last played day
  is in the future, nobody has more attempts than there are guesses, and a last played day
  that is set is the day of one of the participant's guesses.
\<close>

definition consistent :: "storage \<Rightarrow> uint256 \<Rightarrow> bool" where
  "consistent s t =
     (\<forall>p. lastPlayedDay (playerStats s p) \<le> t div one_days
          \<and> attempts (playerStats s p) \<le> guessCount s
          \<and> (lastPlayedDay (playerStats s p) \<noteq> 0
                \<longrightarrow> played_in s p (lastPlayedDay (playerStats s p))))"

text \<open>
  The participant's record once they have played on day \<open>d\<close>, while the answer of day
  \<open>d\<close> is the current one.
\<close>

definition played_today :: "storage \<Rightarrow> address \<Rightarrow> uint256 \<Rightarrow> uint256 \<Rightarrow> bool" where
  "played_today s p d a =
     (lastPlayedDay (playerStats s p) = d \<and> day (currentAnswer s) = d
      \<and> attempts (playerStats s p) = a)"

text \<open>Calls that follow Alice's submission of the small game, all during day 7.\<close>

definition later_that_day :: "(env \<times> call) list" where
  "later_that_day =
     [(call_env bob 604830 0, SubmitGuess word_a),
      (call_env admin 604900 0, SetDailyAnswer word_b),
      (call_env alice 605000 9, EvaluateGuess 1)]"

section \<open>What each function does\<close>

text \<open>
  One equation per function: the condition of each revert, in the order the source checks
  them, and the storage and effects of a call that returns.
\<close>

lemma upt5: "[0 ..< 5] = [0, 1, 2, 3, 4]"
  by (simp add: upt_rec)

lemma upt_small:
  "[0 ..< 0] = []" "[0 ..< 1] = [0]" "[0 ..< 2] = [0, 1]" "[0 ..< 3] = [0, 1, 2]"
  "[0 ..< 4] = [0, 1, 2, 3]"
  by (simp_all add: upt_rec)

lemma evaluate_loop_flag:
  "evaluate_loop e g a 0 (FHE_asEbool True) =
     (if loop_returns e g a then Inr (spec_flag g a) else Inl LibraryRevert)"
  by (cases g; cases a)
     (simp add: evaluate_loop.simps spec_flag_def loop_returns_def flag_upto_def upt5 upt_small)



lemma evaluateGuess_eq:
  "evaluateGuess e guessId s =
     (if day (currentAnswer s) = 0 then Inl (Error ''Answer not set'')
      else if player (guesses s guessId) \<noteq> msg_sender e then Inl (Error ''Not your guess'')
      else if timestamp (guesses s guessId) = 0 then Inl (Error ''Invalid guess'')
      else if \<not> library_returns e (letters (guesses s guessId)) (answer_letters (currentAnswer s))
        then Inl LibraryRevert
      else Inr (s\<lparr>requestToGuessId := (requestToGuessId s)(requestDecryption_id e := guessId)\<rparr>,
                [RequestDecryption
                   [FHE_toBytes32 (spec_flag (letters (guesses s guessId))
                                             (answer_letters (currentAnswer s)))]
                   handleEvaluationResult_selector (requestDecryption_id e)]))"
  by (simp add: evaluateGuess_def evaluate_loop_flag library_returns_def Let_def)

lemma submitGuess_eq:
  "submitGuess e l s =
     (if day (currentAnswer s) = 0 then Inl (Error ''Answer not set'')
      else if block_timestamp e div one_days \<noteq> day (currentAnswer s)
        then Inl (Error ''Not current day'')
      else if block_timestamp e div one_days \<le> lastPlayedDay (playerStats s (msg_sender e))
        then Inl (Error ''Already played today'')
      else if MAX_UINT256 \<le> guessCount s then Inl (Panic 17)
      else if MAX_UINT256 \<le> attempts (playerStats s (msg_sender e)) then Inl (Panic 17)
      else Inr (s\<lparr>guessCount := guessCount s + 1,
                  guesses := (guesses s)
                    (guessCount s + 1 :=
                       \<lparr>letters = l, timestamp = block_timestamp e, player = msg_sender e\<rparr>),
                  playerStats := (playerStats s)
                    (msg_sender e :=
                       (playerStats s (msg_sender e))
                         \<lparr>lastPlayedDay := block_timestamp e div one_days,
                          attempts := attempts (playerStats s (msg_sender e)) + 1\<rparr>)\<rparr>,
                [Emit (GuessSubmitted (guessCount s + 1) (msg_sender e))]))"
  by (simp add: submitGuess_def checked_inc_def Let_def not_less)

lemma handleEvaluationResult_eq:
  "handleEvaluationResult e r c p s =
     (if \<not> checkSignatures e r c p then Inl InvalidSignatures
      else case abi_decode_bool c of
        Inl err \<Rightarrow> Inl err
      | Inr False \<Rightarrow>
          Inr (s, [Emit (GuessEvaluated (requestToGuessId s r)
                      (player (guesses s (requestToGuessId s r))) False)])
      | Inr True \<Rightarrow>
          if MAX_UINT256 \<le> wins (playerStats s (player (guesses s (requestToGuessId s r))))
          then Inl (Panic 17)
          else Inr (s\<lparr>playerStats := (playerStats s)
                        (player (guesses s (requestToGuessId s r)) :=
                           (playerStats s (player (guesses s (requestToGuessId s r))))
                             \<lparr>wins := wins (playerStats s
                                 (player (guesses s (requestToGuessId s r)))) + 1\<rparr>),
                      dailyWinners := (dailyWinners s)
                        (day (currentAnswer s) :=
                           dailyWinners s (day (currentAnswer s)) @
                             [player (guesses s (requestToGuessId s r))])\<rparr>,
                    [Emit (GuessEvaluated (requestToGuessId s r)
                       (player (guesses s (requestToGuessId s r))) True)]))"
  by (simp add: handleEvaluationResult_def checked_inc_def Let_def split: sum.splits bool.splits)

lemma setDailyAnswer_eq:
  "setDailyAnswer e l s =
     Inr (s\<lparr>currentAnswer := \<lparr>answer_letters = l, day = block_timestamp e div one_days\<rparr>\<rparr>,
          [Emit (NewDailyAnswer (block_timestamp e div one_days))])"
  by (simp add: setDailyAnswer_def Let_def)

subsection \<open>The small game, computed\<close>

lemma list_all_upt5:
  "list_all P [0 ..< 5] = (P 0 \<and> P 1 \<and> P 2 \<and> P 3 \<and> P (4::nat))"
  by (simp add: upt5)

lemma library_returns_granted [simp]:
  "library_returns
     \<lparr>msg_sender = who, block_timestamp = t, requestDecryption_id = rid,
      checkSignatures = cs,
      eq_returns = (\<lambda>x y. True), and_returns = (\<lambda>x y. True),
      requestDecryption_returns = (\<lambda>cts. True)\<rparr> g a"
  by (simp add: library_returns_def loop_returns_def list_all_upt5)

lemma library_returns_call_env [simp]: "library_returns (call_env who t rid) g a"
  by (simp add: call_env_def)

lemma library_returns_ungranted_env [simp]: "\<not> library_returns (ungranted_env who t rid) g a"
  by (simp add: library_returns_def loop_returns_def ungranted_env_def list_all_upt5)

lemma answered_eq:
  "answered =
     (deployed\<lparr>currentAnswer := \<lparr>answer_letters = word_a, day = 7\<rparr>\<rparr>,
      [Emit (NewDailyAnswer 7)])"
  by (simp add: answered_def run_def setDailyAnswer_eq call_env_def one_days_def)

lemma submitted_eq:
  "submitted =
     (deployed\<lparr>currentAnswer := \<lparr>answer_letters = word_a, day = 7\<rparr>,
        guessCount := 1,
        guesses := (\<lambda>_. zero_guess)(1 := \<lparr>letters = word_a, timestamp = 604810, player = alice\<rparr>),
        playerStats := (\<lambda>_. zero_stats)(alice := \<lparr>wins = 0, attempts = 1, lastPlayedDay = 7\<rparr>)\<rparr>,
      [Emit (NewDailyAnswer 7), Emit (GuessSubmitted 1 alice)])"
  by (simp add: submitted_def answered_eq run_def submitGuess_eq call_env_def one_days_def
      deployed_def zero_stats_def MAX_UINT256_def)

lemma requested_eq:
  "requested =
     (deployed\<lparr>currentAnswer := \<lparr>answer_letters = word_a, day = 7\<rparr>,
        guessCount := 1,
        guesses := (\<lambda>_. zero_guess)(1 := \<lparr>letters = word_a, timestamp = 604810, player = alice\<rparr>),
        playerStats := (\<lambda>_. zero_stats)(alice := \<lparr>wins = 0, attempts = 1, lastPlayedDay = 7\<rparr>),
        requestToGuessId := (\<lambda>_. 0)(5 := 1)\<rparr>,
      [Emit (NewDailyAnswer 7), Emit (GuessSubmitted 1 alice),
       RequestDecryption [FHE_toBytes32 (spec_flag word_a word_a)]
         handleEvaluationResult_selector 5])"
  by (simp add: requested_def submitted_eq run_def evaluateGuess_eq call_env_def
      deployed_def)

lemma abi_decode_payload_true: "abi_decode_bool payload_true = Inr True"
  by (simp add: abi_decode_bool_def payload_true_def nth_append)

lemma abi_decode_payload_false: "abi_decode_bool payload_false = Inr False"
  by (simp add: abi_decode_bool_def payload_false_def)

text \<open>
  A guess id that was never written reads as the zero struct, whose player is the zero
  address: the ownership check then decides before the existence check is reached.
\<close>

lemma evaluateGuess_missing_guess:
  "guesses s guessId = zero_guess \<Longrightarrow> day (currentAnswer s) \<noteq> 0 \<Longrightarrow>
   evaluateGuess e guessId s =
     (if msg_sender e = 0 then Inl (Error ''Invalid guess'') else Inl (Error ''Not your guess''))"
  by (auto simp: evaluateGuess_eq zero_guess_def)

subsection \<open>Sequences of calls\<close>

lemma run_Nil [simp]: "run c [] = c"
  by (simp add: run_def)

lemma run_Cons [simp]: "run c (x # xs) = run (transact c x) xs"
  by (simp add: run_def)

lemma run_append: "run c (xs @ ys) = run (run c xs) ys"
  by (simp add: run_def)

lemma Suc_Suc_0: "Suc (Suc 0) = 2"
  by simp

lemma resolved_once_eq:
  "resolved_once =
     (deployed\<lparr>currentAnswer := \<lparr>answer_letters = word_a, day = 7\<rparr>,
        guessCount := 1,
        guesses := (\<lambda>_. zero_guess)(1 := \<lparr>letters = word_a, timestamp = 604810, player = alice\<rparr>),
        playerStats := (\<lambda>_. zero_stats)(alice := \<lparr>wins = 1, attempts = 1, lastPlayedDay = 7\<rparr>),
        requestToGuessId := (\<lambda>_. 0)(5 := 1),
        dailyWinners := (\<lambda>_. [])(7 := [alice])\<rparr>,
      snd requested @ [Emit (GuessEvaluated 1 alice True)])"
  by (simp add: resolved_once_def requested_eq handleEvaluationResult_eq call_env_def
      abi_decode_payload_true deployed_def MAX_UINT256_def)

lemma resolved_twice_eq:
  "resolved_twice =
     (deployed\<lparr>currentAnswer := \<lparr>answer_letters = word_a, day = 7\<rparr>,
        guessCount := 1,
        guesses := (\<lambda>_. zero_guess)(1 := \<lparr>letters = word_a, timestamp = 604810, player = alice\<rparr>),
        playerStats := (\<lambda>_. zero_stats)(alice := \<lparr>wins = 2, attempts = 1, lastPlayedDay = 7\<rparr>),
        requestToGuessId := (\<lambda>_. 0)(5 := 1),
        dailyWinners := (\<lambda>_. [])(7 := [alice, alice])\<rparr>,
      snd resolved_once @ [Emit (GuessEvaluated 1 alice True)])"
  by (simp add: resolved_twice_def resolved_once_eq handleEvaluationResult_eq call_env_def
      abi_decode_payload_true deployed_def MAX_UINT256_def Suc_Suc_0)

subsection \<open>Rounds of evaluation and resolution\<close>











subsection \<open>The ledger grows by one id per accepted submission\<close>

lemma submissions_append: "submissions (xs @ ys) = submissions xs @ submissions ys"
  by (induction xs rule: submissions.induct) simp_all

lemma transact_not_accepted:
  assumes "accepted s x = []" and "transact (s, out) x = (s1, out1)"
  shows "guessCount s1 = guessCount s \<and> guesses s1 = guesses s
         \<and> submissions out1 = submissions out"
proof (cases x)
  case (Pair e c)
  show ?thesis
  proof (cases c)
    case (SetDailyAnswer l)
    with Pair assms show ?thesis
      by (auto simp: setDailyAnswer_eq submissions_append)
  next
    case (SubmitGuess l)
    with Pair assms show ?thesis
      by (auto split: sum.splits)
  next
    case (EvaluateGuess g)
    with Pair assms show ?thesis
      by (auto simp: evaluateGuess_eq submissions_append split: if_splits)
  next
    case (HandleEvaluationResult r c p)
    with Pair assms show ?thesis
      by (auto simp: handleEvaluationResult_eq submissions_append
          split: if_splits sum.splits bool.splits)
  qed
qed

lemma transact_accepted:
  assumes "accepted s x = [g]" and "transact (s, out) x = (s1, out1)"
  shows "guessCount s1 = guessCount s + 1 \<and> guesses s1 = (guesses s)(guessCount s + 1 := g)
         \<and> submissions out1 = submissions out @ [(guessCount s + 1, player g)]"
proof (cases x)
  case (Pair e c)
  show ?thesis
  proof (cases c)
    case (SubmitGuess l)
    with Pair assms show ?thesis
      by (auto simp: submitGuess_eq submissions_append split: if_splits)
  qed (use Pair assms in auto)
qed

lemma accepted_cases: "accepted s x = [] \<or> (\<exists>g. accepted s x = [g])"
  by (cases "(s, x)" rule: accepted.cases) (auto split: sum.splits)

lemma run_ledger:
  "guessCount (fst (run c tr)) = guessCount (fst c) + length (submits c tr)
   \<and> (\<forall>n. n \<le> guessCount (fst c) \<longrightarrow> guesses (fst (run c tr)) n = guesses (fst c) n)
   \<and> map (guesses (fst (run c tr)))
         [guessCount (fst c) + 1 ..< guessCount (fst c) + 1 + length (submits c tr)]
       = submits c tr
   \<and> map fst (submissions (snd (run c tr)))
       = map fst (submissions (snd c))
           @ [guessCount (fst c) + 1 ..< guessCount (fst c) + 1 + length (submits c tr)]"
proof (induction tr arbitrary: c)
  case Nil
  then show ?case by simp
next
  case (Cons x tr)
  obtain s out where c: "c = (s, out)" by (cases c)
  obtain s1 out1 where t: "transact (s, out) x = (s1, out1)" by (cases "transact (s, out) x")
  let ?s' = "fst (run (s1, out1) tr)"
  let ?k = "length (submits (s1, out1) tr)"
  have IH: "guessCount ?s' = guessCount s1 + ?k
     \<and> (\<forall>n. n \<le> guessCount s1 \<longrightarrow> guesses ?s' n = guesses s1 n)
     \<and> map (guesses ?s') [guessCount s1 + 1 ..< guessCount s1 + 1 + ?k] = submits (s1, out1) tr
     \<and> map fst (submissions (snd (run (s1, out1) tr)))
         = map fst (submissions out1) @ [guessCount s1 + 1 ..< guessCount s1 + 1 + ?k]"
    using Cons.IH [of "(s1, out1)"] unfolding fst_conv snd_conv .
  consider "accepted s x = []" | g where "accepted s x = [g]"
    using accepted_cases by blast
  then show ?case
  proof cases
    case 1
    from transact_not_accepted [OF 1 t]
    have e: "guessCount s1 = guessCount s" "guesses s1 = guesses s"
      "submissions out1 = submissions out"
      by simp_all
    show ?thesis
      unfolding c
      by (simp only: run_Cons submits.simps fst_conv snd_conv t 1 append_Nil)
         (use IH in \<open>simp add: e\<close>)
  next
    case 2
    from transact_accepted [OF 2 t]
    have s1: "guessCount s1 = guessCount s + 1"
      and g1: "guesses s1 = (guesses s)(guessCount s + 1 := g)"
      and o1: "submissions out1 = submissions out @ [(guessCount s + 1, player g)]"
      by simp_all
    from IH have count: "guessCount ?s' = guessCount s1 + ?k"
      and keep: "\<And>n. n \<le> guessCount s1 \<Longrightarrow> guesses ?s' n = guesses s1 n"
      and new: "map (guesses ?s') [guessCount s1 + 1 ..< guessCount s1 + 1 + ?k]
                  = submits (s1, out1) tr"
      and ids: "map fst (submissions (snd (run (s1, out1) tr)))
                  = map fst (submissions out1) @ [guessCount s1 + 1 ..< guessCount s1 + 1 + ?k]"
      by simp_all
    have first: "guesses ?s' (guessCount s + 1) = g"
      using keep [of "guessCount s + 1"] by (simp add: s1 g1)
    have old: "\<And>n. n \<le> guessCount s \<Longrightarrow> guesses ?s' n = guesses s n"
      using keep by (simp add: s1 g1)
    let ?n = "length (g # submits (s1, out1) tr)"
    have sub: "submits (s, out) (x # tr) = g # submits (s1, out1) tr"
      by (simp add: 2 t)
    have split: "[guessCount s + 1 ..< guessCount s + 1 + ?n]
                 = (guessCount s + 1) # [guessCount s1 + 1 ..< guessCount s1 + 1 + ?k]"
      by (simp add: s1 upt_rec)
    have A: "guessCount ?s' = guessCount s + ?n"
      using count s1 by simp
    have B: "\<forall>n. n \<le> guessCount s \<longrightarrow> guesses ?s' n = guesses s n"
      using old by simp
    have C: "map (guesses ?s') [guessCount s + 1 ..< guessCount s + 1 + ?n]
             = g # submits (s1, out1) tr"
      by (simp only: split list.map first new)
    have D: "map fst (submissions (snd (run (s1, out1) tr)))
             = map fst (submissions out) @ [guessCount s + 1 ..< guessCount s + 1 + ?n]"
      by (simp only: split ids o1 map_append list.map fst_conv append_assoc append_Cons
          append_Nil)
    show ?thesis
      unfolding c fst_conv snd_conv run_Cons t sub
      using A B C D by blast
  qed
qed

lemma run_keeps_old_guesses:
  "n \<le> guessCount (fst (run c tr)) \<Longrightarrow>
   guesses (fst (run c (tr @ tr'))) n = guesses (fst (run c tr)) n"
  using run_ledger [of "run c tr" tr'] by (simp add: run_append)

subsection \<open>Last played days follow the ledger\<close>

lemma consistent_deployed: "consistent deployed t"
  by (simp add: consistent_def deployed_def zero_stats_def)

lemma consistent_mono:
  assumes "consistent s t" and "t \<le> t'"
  shows "consistent s t'"
proof -
  have d: "t div one_days \<le> t' div one_days"
    using assms(2) by (rule div_le_mono)
  have "lastPlayedDay (playerStats s p) \<le> t' div one_days" for p
  proof -
    have "lastPlayedDay (playerStats s p) \<le> t div one_days"
      using assms(1) by (simp add: consistent_def)
    with d show ?thesis by (rule order_trans [rotated])
  qed
  with assms(1) show ?thesis
    by (simp add: consistent_def)
qed

lemma played_in_iff:
  "played_in s p d \<longleftrightarrow>
     (\<exists>n. 1 \<le> n \<and> n \<le> guessCount s
          \<and> player (guesses s n) = p \<and> timestamp (guesses s n) div one_days = d)"
proof -
  have "set [1 ..< Suc (guessCount s)] = {n. 1 \<le> n \<and> n \<le> guessCount s}"
    by (simp only: set_upt) (rule set_eqI, simp add: less_Suc_eq_le)
  then show ?thesis
    by (simp only: played_in_def Bex_def mem_Collect_eq conj_assoc)
qed

lemma played_in_frame:
  "played_in (s\<lparr>currentAnswer := a\<rparr>) p d = played_in s p d"
  "played_in (s\<lparr>playerStats := ps\<rparr>) p d = played_in s p d"
  "played_in (s\<lparr>dailyWinners := dw\<rparr>) p d = played_in s p d"
  "played_in (s\<lparr>requestToGuessId := rg\<rparr>) p d = played_in s p d"
  by (simp_all add: played_in_iff)

lemma played_in_submit:
  assumes "played_in s q d"
  shows "played_in (s\<lparr>guessCount := guessCount s + 1,
                      guesses := (guesses s)(guessCount s + 1 := g),
                      playerStats := ps\<rparr>) q d"
proof -
  from assms obtain n where n: "1 \<le> n" "n \<le> guessCount s"
    "player (guesses s n) = q" "timestamp (guesses s n) div one_days = d"
    unfolding played_in_iff by blast
  then have "1 \<le> n \<and> n \<le> guessCount s + 1
      \<and> player (((guesses s)(guessCount s + 1 := g)) n) = q
      \<and> timestamp (((guesses s)(guessCount s + 1 := g)) n) div one_days = d"
    by simp
  then show ?thesis
    unfolding played_in_iff by (intro exI [of _ n]) simp
qed

lemma played_in_new:
  "played_in (s\<lparr>guessCount := guessCount s + 1,
                guesses := (guesses s)
                  (guessCount s + 1 := \<lparr>letters = l, timestamp = t, player = p\<rparr>),
                playerStats := ps\<rparr>) p (t div one_days)"
  unfolding played_in_iff by (intro exI [of _ "guessCount s + 1"]) simp

lemma consistent_step:
  assumes "consistent s t" and "t \<le> block_timestamp e"
  shows "consistent (fst (transact (s, out) (e, c))) (block_timestamp e)"
proof -
  have later: "consistent s (block_timestamp e)"
    using assms by (rule consistent_mono)
  show ?thesis
  proof (cases c)
    case (SetDailyAnswer l)
    with later show ?thesis
      by (simp add: setDailyAnswer_eq consistent_def played_in_frame)
  next
    case (SubmitGuess l)
    show ?thesis
    proof (cases "submitGuess e l s")
      case (Inl err)
      with later SubmitGuess show ?thesis by simp
    next
      case (Inr r)
      then have r: "submitGuess e l s =
          Inr (s\<lparr>guessCount := guessCount s + 1,
                 guesses := (guesses s)
                   (guessCount s + 1 :=
                      \<lparr>letters = l, timestamp = block_timestamp e, player = msg_sender e\<rparr>),
                 playerStats := (playerStats s)
                   (msg_sender e :=
                      (playerStats s (msg_sender e))
                        \<lparr>lastPlayedDay := block_timestamp e div one_days,
                         attempts := attempts (playerStats s (msg_sender e)) + 1\<rparr>)\<rparr>,
               [Emit (GuessSubmitted (guessCount s + 1) (msg_sender e))])"
        by (simp add: submitGuess_eq split: if_splits)
      let ?s' = "s\<lparr>guessCount := guessCount s + 1,
                 guesses := (guesses s)
                   (guessCount s + 1 :=
                      \<lparr>letters = l, timestamp = block_timestamp e, player = msg_sender e\<rparr>),
                 playerStats := (playerStats s)
                   (msg_sender e :=
                      (playerStats s (msg_sender e))
                        \<lparr>lastPlayedDay := block_timestamp e div one_days,
                         attempts := attempts (playerStats s (msg_sender e)) + 1\<rparr>)\<rparr>"
      have att: "attempts (playerStats s p) \<le> guessCount s"
        and lpd: "lastPlayedDay (playerStats s p) \<le> block_timestamp e div one_days"
        and pl: "lastPlayedDay (playerStats s p) \<noteq> 0 \<Longrightarrow>
                   played_in s p (lastPlayedDay (playerStats s p))" for p
        using later by (simp_all add: consistent_def)
      have "consistent ?s' (block_timestamp e)"
        unfolding consistent_def
      proof (intro allI conjI impI)
        fix p
        show "lastPlayedDay (playerStats ?s' p) \<le> block_timestamp e div one_days"
          using lpd [of p] by simp
        show "attempts (playerStats ?s' p) \<le> guessCount ?s'"
          using att [of p] att [of "msg_sender e"] by simp
        assume set: "lastPlayedDay (playerStats ?s' p) \<noteq> 0"
        show "played_in ?s' p (lastPlayedDay (playerStats ?s' p))"
        proof (cases "p = msg_sender e")
          case True
          then show ?thesis
            using played_in_new [where s = s and l = l and t = "block_timestamp e"
                and p = "msg_sender e"] by simp
        next
          case False
          with set have "played_in s p (lastPlayedDay (playerStats s p))"
            using pl [of p] by simp
          then have "played_in ?s' p (lastPlayedDay (playerStats s p))"
            by (rule played_in_submit)
          then show ?thesis
            using False by simp
        qed
      qed
      then show ?thesis
        unfolding SubmitGuess by (simp add: r)
    qed
  next
    case (EvaluateGuess g)
    with later show ?thesis
      by (simp add: evaluateGuess_eq consistent_def played_in_frame)
  next
    case (HandleEvaluationResult r cl p)
    with later show ?thesis
      by (simp add: handleEvaluationResult_eq consistent_def played_in_frame
          split: sum.splits bool.splits)
  qed
qed

lemma consistent_run:
  assumes "consistent s t"
    and "sorted (map call_time tr)"
    and "\<forall>x \<in> set tr. t \<le> call_time x \<and> call_time x \<le> t'"
    and "t \<le> t'"
  shows "consistent (fst (run (s, out) tr)) t'"
  using assms
proof (induction tr arbitrary: s out t)
  case Nil
  then show ?case by (simp add: consistent_mono)
next
  case (Cons x tr)
  obtain e c where x: "x = (e, c)" by (cases x)
  obtain s1 out1 where t: "transact (s, out) (e, c) = (s1, out1)"
    by (cases "transact (s, out) (e, c)")
  have "t \<le> block_timestamp e"
    using Cons.prems by (simp add: x call_time_def)
  with Cons.prems(1) have "consistent (fst (transact (s, out) (e, c))) (block_timestamp e)"
    by (rule consistent_step)
  then have "consistent s1 (block_timestamp e)"
    by (simp only: t fst_conv)
  moreover have "sorted (map call_time tr)"
    using Cons.prems by simp
  moreover have "\<forall>y \<in> set tr. block_timestamp e \<le> call_time y \<and> call_time y \<le> t'"
    using Cons.prems by (simp add: x call_time_def)
  moreover have "block_timestamp e \<le> t'"
    using Cons.prems by (simp add: x call_time_def)
  ultimately have "consistent (fst (run (s1, out1) tr)) t'"
    by (rule Cons.IH)
  then show ?case by (simp only: x run_Cons t)
qed

lemma not_played_yet:
  assumes "consistent s t" and "t \<le> now" and "now div one_days \<noteq> 0"
    and "\<not> played_in s p (now div one_days)"
  shows "lastPlayedDay (playerStats s p) < now div one_days"
proof -
  have "lastPlayedDay (playerStats s p) \<le> now div one_days"
    using consistent_mono [OF assms(1,2)] by (simp add: consistent_def)
  moreover have "lastPlayedDay (playerStats s p) \<noteq> now div one_days"
  proof
    assume eq: "lastPlayedDay (playerStats s p) = now div one_days"
    with assms(3) have "lastPlayedDay (playerStats s p) \<noteq> 0" by simp
    with assms(1) have "played_in s p (lastPlayedDay (playerStats s p))"
      by (simp add: consistent_def)
    with eq assms(4) show False by simp
  qed
  ultimately show ?thesis by simp
qed

lemma played_today_step:
  assumes "played_today s p d a" and "block_timestamp e div one_days = d"
  shows "played_today (fst (transact (s, out) (e, c))) p d a"
proof (cases c)
  case (SetDailyAnswer l)
  with assms show ?thesis
    by (simp add: setDailyAnswer_eq played_today_def)
next
  case (SubmitGuess l)
  with assms show ?thesis
    by (cases "msg_sender e = p") (simp_all add: submitGuess_eq played_today_def)
next
  case (EvaluateGuess g)
  with assms show ?thesis
    by (simp add: evaluateGuess_eq played_today_def)
next
  case (HandleEvaluationResult r cl pf)
  with assms show ?thesis
    by (auto simp: handleEvaluationResult_eq played_today_def split: sum.splits bool.splits)
qed

lemma played_today_run:
  assumes "played_today s p d a" and "\<forall>x \<in> set tr. call_time x div one_days = d"
  shows "played_today (fst (run (s, out) tr)) p d a"
  using assms
proof (induction tr arbitrary: s out)
  case Nil
  then show ?case by simp
next
  case (Cons x tr)
  obtain e c where x: "x = (e, c)" by (cases x)
  obtain s1 out1 where t: "transact (s, out) (e, c) = (s1, out1)"
    by (cases "transact (s, out) (e, c)")
  have "block_timestamp e div one_days = d"
    using Cons.prems(2) by (simp add: x call_time_def)
  with Cons.prems(1) have "played_today (fst (transact (s, out) (e, c))) p d a"
    by (rule played_today_step)
  then have "played_today s1 p d a"
    by (simp only: t fst_conv)
  moreover have "\<forall>y \<in> set tr. call_time y div one_days = d"
    using Cons.prems(2) by simp
  ultimately have "played_today (fst (run (s1, out1) tr)) p d a"
    by (rule Cons.IH)
  then show ?case by (simp only: x run_Cons t)
qed

lemma same_day_between:
  fixes a b c :: nat
  assumes "a \<le> b" and "b \<le> c" and "c div k = a div k"
  shows "b div k = a div k"
proof -
  have "a div k \<le> b div k" using assms(1) by (rule div_le_mono)
  moreover have "b div k \<le> c div k" using assms(2) by (rule div_le_mono)
  ultimately show ?thesis using assms(3) by simp
qed

section \<open>The claims\<close>

text \<open>
  C2. A resolution whose attestation does not verify reverts: the call returns no storage,
  and the chain (storage, events and requests) after the transaction is the chain before
  it, so no counter, winner list or pending entry changes and no notification is emitted.
\<close>

theorem handleEvaluationResult_fail_closed:
  assumes "\<not> checkSignatures e requestId cleartexts prf"
  shows "handleEvaluationResult e requestId cleartexts prf s = Inl InvalidSignatures
         \<and> transact (s, out) (e, HandleEvaluationResult requestId cleartexts prf) = (s, out)"
  using assms by (simp add: handleEvaluationResult_eq)

theorem handleEvaluationResult_fail_closed_witness:
  "\<not> checkSignatures (forged_env bob 604830) 5 payload_true []
   \<and> handleEvaluationResult (forged_env bob 604830) 5 payload_true [] (fst requested)
       = Inl InvalidSignatures
   \<and> transact requested (forged_env bob 604830, HandleEvaluationResult 5 payload_true [])
       = requested"
proof -
  have h: "\<not> checkSignatures (forged_env bob 604830) 5 payload_true []"
    by (simp add: forged_env_def)
  from handleEvaluationResult_fail_closed [OF h, of "fst requested" "snd requested"] h
  show ?thesis by simp
qed



text \<open>
  C6. \<^verbatim>\<open>submitGuess\<close> either commits everything (the guess is stored under the id
  \<open>guessCount + 1\<close>, the counter becomes that id, the caller's attempts grow by one and
  the caller's last played day becomes the current day, nothing else changes) or reverts,
  and then the chain after the transaction is the chain before it.
\<close>

theorem submitGuess_atomic:
  "(\<exists>s'. submitGuess e l s = Inr (s', [Emit (GuessSubmitted (guessCount s + 1) (msg_sender e))])
       \<and> transact (s, out) (e, SubmitGuess l)
           = (s', out @ [Emit (GuessSubmitted (guessCount s + 1) (msg_sender e))])
       \<and> s' = s\<lparr>guessCount := guessCount s + 1,
                   guesses := (guesses s)
                     (guessCount s + 1 :=
                        \<lparr>letters = l, timestamp = block_timestamp e, player = msg_sender e\<rparr>),
                   playerStats := (playerStats s)
                     (msg_sender e :=
                        (playerStats s (msg_sender e))
                          \<lparr>lastPlayedDay := block_timestamp e div one_days,
                           attempts := attempts (playerStats s (msg_sender e)) + 1\<rparr>)\<rparr>
       \<and> attempts (playerStats s' (msg_sender e)) = attempts (playerStats s (msg_sender e)) + 1
       \<and> lastPlayedDay (playerStats s' (msg_sender e)) = block_timestamp e div one_days
       \<and> block_timestamp e div one_days = day (currentAnswer s))
   \<or> (\<exists>err. submitGuess e l s = Inl err
       \<and> transact (s, out) (e, SubmitGuess l) = (s, out))"
  by (simp add: submitGuess_eq)

theorem submitGuess_atomic_witness:
  "transact answered (call_env alice 604810 0, SubmitGuess word_a) = submitted
   \<and> getPlayerStats alice (fst answered) = (0, 0)
   \<and> getPlayerStats alice (fst submitted) = (0, 1)
   \<and> guessCount (fst submitted) = guessCount (fst answered) + 1
   \<and> transact submitted (call_env alice 604811 0, SubmitGuess word_b) = submitted"
  using submitGuess_atomic [of "call_env alice 604810 0" word_a "fst answered" "snd answered"]
    submitGuess_atomic [of "call_env alice 604811 0" word_b "fst submitted" "snd submitted"]
  by (simp add: answered_eq submitted_eq getPlayerStats_def call_env_def deployed_def
      zero_stats_def one_days_def submitGuess_eq MAX_UINT256_def)

text \<open>
  C7. Evaluated at an id under which nothing was stored, with an answer set and a caller
  that is not the zero address, \<^verbatim>\<open>evaluateGuess\<close> reverts with "Not your guess": the
  "Invalid guess" check of line 81 is not reached.
\<close>

theorem evaluateGuess_missing_guess_reports_not_your_guess:
  "guesses (fst answered) 1 = zero_guess
   \<and> day (currentAnswer (fst answered)) \<noteq> 0
   \<and> evaluateGuess (call_env alice 604820 5) 1 (fst answered) = Inl (Error ''Not your guess'')"
  by (simp add: answered_eq evaluateGuess_eq call_env_def deployed_def zero_guess_def alice_def)

text \<open>
  C8. \<^verbatim>\<open>setDailyAnswer\<close> returns for every caller, time and storage: it replaces the
  answer, sets its day to \<open>block.timestamp / 1 days\<close> and emits \<^verbatim>\<open>NewDailyAnswer\<close>
  with that day. No condition on the caller appears.
\<close>

theorem setDailyAnswer_unguarded:
  "setDailyAnswer e l s =
     Inr (s\<lparr>currentAnswer := \<lparr>answer_letters = l, day = block_timestamp e div one_days\<rparr>\<rparr>,
          [Emit (NewDailyAnswer (block_timestamp e div one_days))])
   \<and> transact (s, out) (e, SetDailyAnswer l) =
       (s\<lparr>currentAnswer := \<lparr>answer_letters = l, day = block_timestamp e div one_days\<rparr>\<rparr>,
        out @ [Emit (NewDailyAnswer (block_timestamp e div one_days))])"
  by (simp add: setDailyAnswer_eq)

text \<open>
  C9. A call of \<^verbatim>\<open>evaluateGuess\<close> that returns changes one thing in storage, the entry
  of \<^verbatim>\<open>requestToGuessId\<close> at the request id; player statistics, winner lists, the
  guesses, the counter and the answer are as before.
\<close>

theorem evaluateGuess_frame:
  assumes "evaluateGuess e guessId s = Inr (s', out)"
  shows "s' = s\<lparr>requestToGuessId := (requestToGuessId s)(requestDecryption_id e := guessId)\<rparr>
         \<and> playerStats s' = playerStats s
         \<and> dailyWinners s' = dailyWinners s
         \<and> guesses s' = guesses s
         \<and> guessCount s' = guessCount s
         \<and> currentAnswer s' = currentAnswer s"
  using assms by (auto simp: evaluateGuess_eq split: if_splits)

theorem evaluateGuess_frame_witness:
  "evaluateGuess (call_env alice 604820 5) 1 (fst submitted) = Inr (fst requested, drop 2 (snd requested))
   \<and> fst requested = (fst submitted)\<lparr>requestToGuessId := (requestToGuessId (fst submitted))(5 := 1)\<rparr>
   \<and> getPlayerStats alice (fst requested) = (0, 1)
   \<and> getDailyWinners 7 (fst requested) = []"
proof -
  have h: "evaluateGuess (call_env alice 604820 5) 1 (fst submitted) =
             Inr (fst requested, drop 2 (snd requested))"
    by (simp add: submitted_eq requested_eq evaluateGuess_eq call_env_def deployed_def)
  have "requestDecryption_id (call_env alice 604820 5) = 5"
    by (simp add: call_env_def)
  with evaluateGuess_frame [OF h] show ?thesis
    using h by (simp add: getPlayerStats_def getDailyWinners_def submitted_eq deployed_def)
qed

text \<open>
  C1, as stated, fails: in the small game the request 5 is resolved twice with a passing
  attestation and a true payload, and Alice's wins go from 0 to 1 to 2 while the winner
  list of day 7 receives her twice.
\<close>

theorem replay_counts_twice:
  "getPlayerStats alice (fst requested) = (0, 1)
   \<and> getDailyWinners 7 (fst requested) = []
   \<and> getPlayerStats alice (fst resolved_once) = (1, 1)
   \<and> getDailyWinners 7 (fst resolved_once) = [alice]
   \<and> getPlayerStats alice (fst resolved_twice) = (2, 1)
   \<and> getDailyWinners 7 (fst resolved_twice) = [alice, alice]"
  by (simp add: requested_eq resolved_once_eq resolved_twice_eq getPlayerStats_def
      getDailyWinners_def deployed_def zero_stats_def)

text \<open>
  C1, amended. A second resolution of a request id is neither rejected nor ignored:
  \<^verbatim>\<open>handleEvaluationResult\<close> never clears or marks \<^verbatim>\<open>requestToGuessId\<close>. Two
  resolutions of the same request id whose attestations pass and whose payload decodes to
  true add 2 to the wins of the guess's player and append the player twice to the winner
  list of the current answer's day, and both emit \<^verbatim>\<open>GuessEvaluated\<close>.
\<close>

theorem resolution_applies_every_time:
  assumes "checkSignatures e1 requestId cleartexts prf1"
    and "checkSignatures e2 requestId cleartexts prf2"
    and "abi_decode_bool cleartexts = Inr True"
    and "wins (playerStats s (player (guesses s (requestToGuessId s requestId)))) + 2
           \<le> MAX_UINT256"
  shows "run (s, out) [(e1, HandleEvaluationResult requestId cleartexts prf1),
                       (e2, HandleEvaluationResult requestId cleartexts prf2)]
         = (s\<lparr>playerStats := (playerStats s)
                (player (guesses s (requestToGuessId s requestId)) :=
                   (playerStats s (player (guesses s (requestToGuessId s requestId))))
                     \<lparr>wins := wins (playerStats s
                         (player (guesses s (requestToGuessId s requestId)))) + 2\<rparr>),
              dailyWinners := (dailyWinners s)
                (day (currentAnswer s) :=
                   dailyWinners s (day (currentAnswer s)) @
                     [player (guesses s (requestToGuessId s requestId)),
                      player (guesses s (requestToGuessId s requestId))])\<rparr>,
            out @ [Emit (GuessEvaluated (requestToGuessId s requestId)
                     (player (guesses s (requestToGuessId s requestId))) True),
                   Emit (GuessEvaluated (requestToGuessId s requestId)
                     (player (guesses s (requestToGuessId s requestId))) True)])"
  using assms by (simp add: handleEvaluationResult_eq)

theorem resolution_applies_every_time_witness:
  "run requested [(call_env bob 604830 0, HandleEvaluationResult 5 payload_true []),
                  (call_env bob 604840 0, HandleEvaluationResult 5 payload_true [])]
     = resolved_twice
   \<and> wins (playerStats (fst resolved_twice) alice) = wins (playerStats (fst requested) alice) + 2"
proof -
  have h1: "checkSignatures (call_env bob 604830 0) 5 payload_true []"
    and h2: "checkSignatures (call_env bob 604840 0) 5 payload_true []"
    by (simp_all add: call_env_def)
  have h3: "wins (playerStats (fst requested)
              (player (guesses (fst requested) (requestToGuessId (fst requested) 5)))) + 2
            \<le> MAX_UINT256"
    by (simp add: requested_eq deployed_def MAX_UINT256_def)
  from resolution_applies_every_time [OF h1 h2 abi_decode_payload_true h3, of "snd requested"]
  show ?thesis
    by (simp add: requested_eq resolved_twice_eq resolved_once_eq deployed_def Suc_Suc_0)
qed




text \<open>
  C10. From the deployed contract and after any sequence of calls, the guess counter is the
  number of submissions that returned so far; the guesses stored under the ids 1, 2, ...,
  up to the counter are those submissions in the order they were made, so the n-th one is
  under id n; the ids carried by the \<^verbatim>\<open>GuessSubmitted\<close> events are 1, 2, ... in that
  order, each one more than the one before; and whatever calls follow, what is stored
  under these ids stays, so no id is given twice.
\<close>

theorem guess_ids_sequential:
  "guessCount (fst (run (deployed, []) tr)) = length (submits (deployed, []) tr)
   \<and> map (guesses (fst (run (deployed, []) tr)))
         [1 ..< Suc (length (submits (deployed, []) tr))]
       = submits (deployed, []) tr
   \<and> map fst (submissions (snd (run (deployed, []) tr)))
       = [1 ..< Suc (length (submits (deployed, []) tr))]
   \<and> map (guesses (fst (run (deployed, []) (tr @ tr'))))
         [1 ..< Suc (length (submits (deployed, []) tr))]
       = submits (deployed, []) tr"
proof -
  let ?c0 = "(deployed, []) :: chain"
  have zero: "guessCount (fst ?c0) = 0" "submissions (snd ?c0) = []"
    by (simp_all add: deployed_def)
  have L: "guessCount (fst (run ?c0 tr)) = length (submits ?c0 tr)"
    and M: "map (guesses (fst (run ?c0 tr))) [1 ..< Suc (length (submits ?c0 tr))]
              = submits ?c0 tr"
    and I: "map fst (submissions (snd (run ?c0 tr))) = [1 ..< Suc (length (submits ?c0 tr))]"
    using run_ledger [of ?c0 tr] by (simp_all only: zero) simp_all
  have "map (guesses (fst (run ?c0 (tr @ tr')))) [1 ..< Suc (length (submits ?c0 tr))]
        = map (guesses (fst (run ?c0 tr))) [1 ..< Suc (length (submits ?c0 tr))]"
  proof (rule map_cong [OF refl])
    fix n assume "n \<in> set [1 ..< Suc (length (submits ?c0 tr))]"
    then have "n \<le> guessCount (fst (run ?c0 tr))"
      by (simp add: L del: upt_Suc)
    then show "guesses (fst (run ?c0 (tr @ tr'))) n = guesses (fst (run ?c0 tr)) n"
      by (rule run_keeps_old_guesses)
  qed
  with L M I show ?thesis by simp
qed

theorem guess_ids_sequential_witness:
  "submits (deployed, []) four_calls
     = [\<lparr>letters = word_b, timestamp = 604810, player = alice\<rparr>,
        \<lparr>letters = word_a, timestamp = 604830, player = bob\<rparr>]
   \<and> guessCount (fst (run (deployed, []) four_calls)) = 2
   \<and> map fst (submissions (snd (run (deployed, []) four_calls))) = [1, 2]
   \<and> guesses (fst (run (deployed, []) four_calls)) 1
       = \<lparr>letters = word_b, timestamp = 604810, player = alice\<rparr>
   \<and> guesses (fst (run (deployed, []) four_calls)) 2
       = \<lparr>letters = word_a, timestamp = 604830, player = bob\<rparr>"
proof -
  have s: "submits (deployed, []) four_calls
     = [\<lparr>letters = word_b, timestamp = 604810, player = alice\<rparr>,
        \<lparr>letters = word_a, timestamp = 604830, player = bob\<rparr>]"
    by (simp add: four_calls_def setDailyAnswer_eq submitGuess_eq call_env_def deployed_def
        zero_stats_def one_days_def MAX_UINT256_def alice_def bob_def)
  have u: "[1 ..< Suc 2] = [1, 2::nat]"
    by (simp add: upt_rec)
  have n: "length (submits (deployed, []) four_calls) = 2"
    by (simp add: s)
  note t = guess_ids_sequential [of four_calls "[]"]
  from t have "guessCount (fst (run (deployed, []) four_calls)) = 2"
    by (simp only: n)
  moreover from t have "map fst (submissions (snd (run (deployed, []) four_calls))) = [1, 2]"
    by (simp only: n u)
  moreover from t have "map (guesses (fst (run (deployed, []) four_calls))) [1, 2]
      = [\<lparr>letters = word_b, timestamp = 604810, player = alice\<rparr>,
         \<lparr>letters = word_a, timestamp = 604830, player = bob\<rparr>]"
    by (simp only: n u) (simp add: s)
  ultimately show ?thesis
    using s by simp
qed

text \<open>
  C5. Take any calls \<open>tr1\<close> from deployment, in block order, after which the answer of
  day \<open>d\<close> is current and the participant has no guess of day \<open>d\<close> in the ledger.
  Their submission during \<open>d\<close> returns and adds one attempt. Then, after any further
  calls \<open>tr2\<close> by anybody, every submission they make at any later time of day \<open>d\<close>
  reverts with "Already played today", leaves the chain as it was, and their attempts are
  still those after the first submission. (The guess counter is taken below \<open>2^256 - 1\<close>.)
\<close>

theorem one_submission_per_day:
  assumes "sorted (map call_time (tr1 @ (e, SubmitGuess l) # tr2 @ [(e', SubmitGuess l')]))"
    and "c = run (deployed, []) tr1"
    and "day (currentAnswer (fst c)) = block_timestamp e div one_days"
    and "block_timestamp e div one_days \<noteq> 0"
    and "\<not> played_in (fst c) (msg_sender e) (block_timestamp e div one_days)"
    and "guessCount (fst c) < MAX_UINT256"
    and "msg_sender e' = msg_sender e"
    and "block_timestamp e' div one_days = block_timestamp e div one_days"
    and "c1 = transact c (e, SubmitGuess l)"
    and "c2 = run c1 tr2"
  shows "(\<exists>r. submitGuess e l (fst c) = Inr r)
         \<and> attempts (playerStats (fst c1) (msg_sender e))
             = attempts (playerStats (fst c) (msg_sender e)) + 1
         \<and> submitGuess e' l' (fst c2) = Inl (Error ''Already played today'')
         \<and> transact c2 (e', SubmitGuess l') = c2
         \<and> attempts (playerStats (fst c2) (msg_sender e))
             = attempts (playerStats (fst c1) (msg_sender e))"
proof -
  let ?d = "block_timestamp e div one_days"
  let ?p = "msg_sender e"
  obtain s out where c: "c = (s, out)" by (cases c)
  have sorted1: "sorted (map call_time tr1)"
    and before: "\<forall>x \<in> set tr1. call_time x \<le> block_timestamp e"
    and between: "\<forall>x \<in> set tr2. block_timestamp e \<le> call_time x
                    \<and> call_time x \<le> block_timestamp e'"
    using assms(1) by (auto simp: sorted_append call_time_def)
  have "consistent (fst (run (deployed, []) tr1)) (block_timestamp e)"
    using consistent_deployed [of 0] sorted1
  proof (rule consistent_run)
    show "\<forall>x \<in> set tr1. 0 \<le> call_time x \<and> call_time x \<le> block_timestamp e"
      using before by simp
  qed simp
  moreover have "run (deployed, []) tr1 = (s, out)"
    using assms(2) c by simp
  ultimately have cons: "consistent s (block_timestamp e)"
    by simp
  have fresh: "lastPlayedDay (playerStats s ?p) < ?d"
    using cons order_refl assms(4)
  proof (rule not_played_yet)
    show "\<not> played_in s ?p ?d" using assms(5) by (simp add: c)
  qed
  have att: "attempts (playerStats s ?p) \<le> guessCount s"
    using cons by (simp add: consistent_def)
  have room: "guessCount s < MAX_UINT256"
    using assms(6) by (simp add: c)
  have active: "day (currentAnswer s) = ?d"
    using assms(3) by (simp add: c)
  let ?s1 = "s\<lparr>guessCount := guessCount s + 1,
                 guesses := (guesses s)
                   (guessCount s + 1 :=
                      \<lparr>letters = l, timestamp = block_timestamp e, player = ?p\<rparr>),
                 playerStats := (playerStats s)
                   (?p := (playerStats s ?p)
                        \<lparr>lastPlayedDay := ?d,
                         attempts := attempts (playerStats s ?p) + 1\<rparr>)\<rparr>"
  have first: "submitGuess e l s = Inr (?s1, [Emit (GuessSubmitted (guessCount s + 1) ?p)])"
    using fresh att room active assms(4) by (simp add: submitGuess_eq)
  then have c1: "c1 = (?s1, out @ [Emit (GuessSubmitted (guessCount s + 1) ?p)])"
    using assms(9) by (simp add: c)
  have start: "played_today ?s1 ?p ?d (attempts (playerStats s ?p) + 1)"
    using active by (simp add: played_today_def)
  have "\<forall>x \<in> set tr2. call_time x div one_days = ?d"
  proof
    fix x assume "x \<in> set tr2"
    with between have "block_timestamp e \<le> call_time x" "call_time x \<le> block_timestamp e'"
      by simp_all
    then show "call_time x div one_days = ?d"
      using assms(8) by (rule same_day_between)
  qed
  with start have "played_today (fst (run (?s1, out @ [Emit (GuessSubmitted (guessCount s + 1) ?p)]) tr2))
      ?p ?d (attempts (playerStats s ?p) + 1)"
    by (rule played_today_run)
  then have fin: "played_today (fst c2) ?p ?d (attempts (playerStats s ?p) + 1)"
    using assms(10) by (simp only: c1)
  have second: "submitGuess e' l' (fst c2) = Inl (Error ''Already played today'')"
    using fin assms(4,7,8) by (simp add: submitGuess_eq played_today_def)
  have "transact c2 (e', SubmitGuess l') = c2"
    using second by (cases c2) simp
  with first second fin show ?thesis
    by (simp add: c c1 played_today_def)
qed

theorem one_submission_per_day_witness:
  "transact answered (call_env alice 604810 0, SubmitGuess word_a) = submitted
   \<and> attempts (playerStats (fst answered) alice) = 0
   \<and> attempts (playerStats (fst submitted) alice) = 1
   \<and> submitGuess (call_env alice 690000 0) word_b (fst (run submitted later_that_day))
       = Inl (Error ''Already played today'')
   \<and> attempts (playerStats (fst (run submitted later_that_day)) alice) = 1"
proof -
  let ?e = "call_env alice 604810 0"
  let ?e' = "call_env alice 690000 0"
  let ?tr1 = "[(call_env admin 604800 0, SetDailyAnswer word_a)]"
  have h1: "sorted (map call_time
              (?tr1 @ (?e, SubmitGuess word_a) # later_that_day @ [(?e', SubmitGuess word_b)]))"
    by (simp add: later_that_day_def call_time_def call_env_def)
  have h2: "answered = run (deployed, []) ?tr1"
    by (simp only: answered_def)
  have h3: "day (currentAnswer (fst answered)) = block_timestamp ?e div one_days"
    and h4: "block_timestamp ?e div one_days \<noteq> 0"
    and h5: "\<not> played_in (fst answered) (msg_sender ?e) (block_timestamp ?e div one_days)"
    and h6: "guessCount (fst answered) < MAX_UINT256"
    by (simp_all add: answered_eq call_env_def one_days_def deployed_def played_in_def
        MAX_UINT256_def)
  have h7: "msg_sender ?e' = msg_sender ?e"
    and h8: "block_timestamp ?e' div one_days = block_timestamp ?e div one_days"
    by (simp_all add: call_env_def one_days_def)
  have h9: "submitted = transact answered (?e, SubmitGuess word_a)"
    by (simp add: submitted_def)
  have a0: "attempts (playerStats (fst answered) alice) = 0"
    and a1: "attempts (playerStats (fst submitted) alice) = 1"
    by (simp_all add: answered_eq submitted_eq deployed_def zero_stats_def)
  have who: "msg_sender ?e = alice"
    by (simp add: call_env_def)
  from one_submission_per_day [OF h1 h2 h3 h4 h5 h6 h7 h8 h9 refl, of ] h9 a0 a1
  show ?thesis
    by (simp only: who)
qed

end
